theory Spec2Isabelle
  imports Complex_Main
begin

section \<open>Package metrics\<close>

text \<open>
  The six collectors of package \<open>metrics\<close> are process-wide variables. What the program
  does to them is kept as a trace: one \<open>Inc\<close> per call of \<open>Inc()\<close> on a counter child, one
  \<open>Observe\<close> per call of \<open>Observe(v)\<close> on a histogram child, each with the label values given
  to \<open>WithLabelValues\<close>. The calls of \<open>klog.Errorf\<close> and \<open>klog.Infof\<close> are kept in a second
  trace, by their format string. Lines logged through \<open>klog.V(...)\<close> depend on the
  configured verbosity and are left out.

  A \<open>float64\<close> is modelled as a real number, so the rounding of \<open>float64(n)\<close> for an integer
  beyond 53 bits is not part of the model.
\<close>

datatype collector =
  requestCounter | requestLatencies | requestSizes | responseSizes | inputTokens | outputTokens

definition InferenceModelComponent :: string where
  "InferenceModelComponent = ''inference_model''"

text \<open>The fully qualified name of a collector: its subsystem, an underscore, its name.\<close>

fun fqName :: "collector \<Rightarrow> string" where
  "fqName requestCounter = InferenceModelComponent @ ''_'' @ ''request_total''"
| "fqName requestLatencies = InferenceModelComponent @ ''_'' @ ''request_duration_seconds''"
| "fqName requestSizes = InferenceModelComponent @ ''_'' @ ''request_sizes''"
| "fqName responseSizes = InferenceModelComponent @ ''_'' @ ''response_sizes''"
| "fqName inputTokens = InferenceModelComponent @ ''_'' @ ''input_tokens''"
| "fqName outputTokens = InferenceModelComponent @ ''_'' @ ''output_tokens''"

datatype metric_event =
  Inc collector "string list"
| Observe collector "string list" real

datatype log_event = Errorf string | Infof string

record telemetry =
  metrics :: "metric_event list"
  klog :: "log_event list"

definition float64 :: "int \<Rightarrow> real" where
  "float64 n = real_of_int n"

subsection \<open>time.Time and time.Duration\<close>

text \<open>
  An instant is the number of nanoseconds since the zero \<open>Time\<close>, so the zero value of a
  \<open>time.Time\<close> field is \<open>0\<close>. A \<open>Duration\<close> is a 64-bit count of nanoseconds: \<open>Sub\<close> gives
  the difference when it fits and the largest or smallest \<open>Duration\<close> otherwise, as the
  Go library does. \<open>Seconds\<close> is the duration as a number of seconds.
\<close>

type_synonym time = int
type_synonym Duration = int

definition maxDuration :: Duration where
  "maxDuration = 2 ^ 63 - 1"

definition minDuration :: Duration where
  "minDuration = - (2 ^ 63)"

definition After :: "time \<Rightarrow> time \<Rightarrow> bool" where
  "After t u = (u < t)"

definition Sub :: "time \<Rightarrow> time \<Rightarrow> Duration" where
  "Sub t u =
     (let d = t - u in
      if maxDuration < d then maxDuration
      else if d < minDuration then minDuration
      else d)"

definition Seconds :: "Duration \<Rightarrow> real" where
  "Seconds d = real_of_int d / 1000000000"

subsection \<open>Recording\<close>

definition RecordRequestCounter :: "string \<Rightarrow> string \<Rightarrow> telemetry \<Rightarrow> telemetry" where
  "RecordRequestCounter modelName targetModelName tel =
     tel\<lparr>metrics := metrics tel @ [Inc requestCounter [modelName, targetModelName]]\<rparr>"

definition RecordRequestSizes :: "string \<Rightarrow> string \<Rightarrow> int \<Rightarrow> telemetry \<Rightarrow> telemetry" where
  "RecordRequestSizes modelName targetModelName reqSize tel =
     tel\<lparr>metrics := metrics tel @
       [Observe requestSizes [modelName, targetModelName] (float64 reqSize)]\<rparr>"

definition RecordRequestLatencies ::
  "string \<Rightarrow> string \<Rightarrow> time \<Rightarrow> time \<Rightarrow> telemetry \<Rightarrow> bool \<times> telemetry" where
  "RecordRequestLatencies modelName targetModelName received completeT tel =
     (if \<not> After completeT received then
        (False, tel\<lparr>klog := klog tel @
          [Errorf ''request latency value error for model name %v, target model name %v: complete time %v is before received time %v'']\<rparr>)
      else
        let elapsedSeconds = Seconds (Sub completeT received) in
        (True, tel\<lparr>metrics := metrics tel @
                  [Observe requestLatencies [modelName, targetModelName] elapsedSeconds],
                klog := klog tel @
                  [Infof ''Request has a receive time %v, and complete time %v'']\<rparr>))"

definition RecordResponseSizes :: "string \<Rightarrow> string \<Rightarrow> int \<Rightarrow> telemetry \<Rightarrow> telemetry" where
  "RecordResponseSizes modelName targetModelName sz tel =
     tel\<lparr>metrics := metrics tel @
       [Observe responseSizes [modelName, targetModelName] (float64 sz)]\<rparr>"

definition RecordInputTokens :: "string \<Rightarrow> string \<Rightarrow> int \<Rightarrow> telemetry \<Rightarrow> telemetry" where
  "RecordInputTokens modelName targetModelName sz tel =
     tel\<lparr>metrics := metrics tel @
       [Observe inputTokens [modelName, targetModelName] (float64 sz)]\<rparr>"

definition RecordOutputTokens :: "string \<Rightarrow> string \<Rightarrow> int \<Rightarrow> telemetry \<Rightarrow> telemetry" where
  "RecordOutputTokens modelName targetModelName sz tel =
     tel\<lparr>metrics := metrics tel @
       [Observe outputTokens [modelName, targetModelName] (float64 sz)]\<rparr>"

subsection \<open>Registration\<close>

text \<open>
  \<open>legacyregistry\<close> is the process-wide registry, kept as the list of the fully qualified
  names registered so far. \<open>MustRegister\<close> panics on a name that is already there.
  \<open>registerMetrics\<close> is the \<open>sync.Once\<close>: the flag says whether \<open>Do\<close> has run its function.
  \<open>Do\<close> sets the flag also when the function panics.
\<close>

datatype panic = AlreadyRegisteredError string

record registry =
  registerMetrics :: bool
  legacyregistry :: "string list"

definition MustRegister :: "collector \<Rightarrow> string list \<Rightarrow> panic + string list" where
  "MustRegister c r =
     (if fqName c \<in> set r then Inl (AlreadyRegisteredError (fqName c))
      else Inr (r @ [fqName c]))"

fun MustRegister_each :: "collector list \<Rightarrow> string list \<Rightarrow> panic option \<times> string list" where
  "MustRegister_each [] r = (None, r)"
| "MustRegister_each (c # cs) r =
     (case MustRegister c r of
        Inl p \<Rightarrow> (Some p, r)
      | Inr r' \<Rightarrow> MustRegister_each cs r')"

definition Register :: "registry \<Rightarrow> panic option \<times> registry" where
  "Register s =
     (if registerMetrics s then (None, s)
      else
        case MustRegister_each
               [requestCounter, requestLatencies, requestSizes,
                responseSizes, inputTokens, outputTokens]
               (legacyregistry s)
        of (p, r) \<Rightarrow> (p, \<lparr>registerMetrics = True, legacyregistry = r\<rparr>))"

text \<open>The registry after \<open>n\<close> calls of \<open>Register\<close> that all returned.\<close>

primrec Register_times :: "nat \<Rightarrow> registry \<Rightarrow> registry" where
  "Register_times 0 s = s"
| "Register_times (Suc n) s = Register_times n (snd (Register s))"

section \<open>Package handlers\<close>

subsection \<open>Errors and gRPC status\<close>

datatype codes =
  OK | Canceled | Unknown | InvalidArgument | DeadlineExceeded | NotFound | AlreadyExists
| PermissionDenied | ResourceExhausted | FailedPrecondition | Aborted | OutOfRange
| Unimplemented | Internal | Unavailable | DataLoss | Unauthenticated

text \<open>
  A Go \<open>error\<close> value that is not \<open>nil\<close>: the two sentinels the loop can meet (\<open>io.EOF\<close> from
  \<open>Recv\<close>, the context's error), an error made by package \<open>status\<close>, or any other error,
  kept by its message. A \<open>nil\<close> error is \<open>None\<close> of \<open>error option\<close>.
\<close>

datatype error =
  io_EOF
| context_Canceled
| context_DeadlineExceeded
| StatusError codes string
| PlainError string

fun codes_String :: "codes \<Rightarrow> string" where
  "codes_String OK = ''OK''"
| "codes_String Canceled = ''Canceled''"
| "codes_String Unknown = ''Unknown''"
| "codes_String InvalidArgument = ''InvalidArgument''"
| "codes_String DeadlineExceeded = ''DeadlineExceeded''"
| "codes_String NotFound = ''NotFound''"
| "codes_String AlreadyExists = ''AlreadyExists''"
| "codes_String PermissionDenied = ''PermissionDenied''"
| "codes_String ResourceExhausted = ''ResourceExhausted''"
| "codes_String FailedPrecondition = ''FailedPrecondition''"
| "codes_String Aborted = ''Aborted''"
| "codes_String OutOfRange = ''OutOfRange''"
| "codes_String Unimplemented = ''Unimplemented''"
| "codes_String Internal = ''Internal''"
| "codes_String Unavailable = ''Unavailable''"
| "codes_String DataLoss = ''DataLoss''"
| "codes_String Unauthenticated = ''Unauthenticated''"

text \<open>\<open>err.Error()\<close>, which is what the verb \<open>%v\<close> prints for an error.\<close>

fun Error_string :: "error \<Rightarrow> string" where
  "Error_string io_EOF = ''EOF''"
| "Error_string context_Canceled = ''context canceled''"
| "Error_string context_DeadlineExceeded = ''context deadline exceeded''"
| "Error_string (StatusError c m) = ''rpc error: code = '' @ codes_String c @ '' desc = '' @ m"
| "Error_string (PlainError m) = m"

text \<open>\<open>status.Code\<close> of an error that is not \<open>nil\<close>: \<open>Unknown\<close> unless the error carries a status.\<close>

fun status_Code :: "error \<Rightarrow> codes" where
  "status_Code (StatusError c m) = c"
| "status_Code e = Unknown"

text \<open>\<open>status.Error\<close> gives \<open>nil\<close> for the code \<open>OK\<close>.\<close>

definition status_Error :: "codes \<Rightarrow> string \<Rightarrow> error option" where
  "status_Error c msg = (if c = OK then None else Some (StatusError c msg))"

subsection \<open>Messages of the external processing stream\<close>

text \<open>
  The variants of \<open>ProcessingRequest.Request\<close>, a header map as a list of pairs and a body
  with its \<open>end_of_stream\<close> flag. \<open>Request_nil\<close> is a request whose \<open>Request\<close> field is not set.
\<close>

type_synonym HeaderMap = "(string \<times> string) list"

record HttpBody =
  Body :: string
  EndOfStream :: bool

datatype ProcessingRequest =
  ProcessingRequest_RequestHeaders HeaderMap
| ProcessingRequest_RequestBody HttpBody
| ProcessingRequest_ResponseHeaders HeaderMap
| ProcessingRequest_ResponseBody HttpBody
| ProcessingRequest_RequestTrailers HeaderMap
| ProcessingRequest_ResponseTrailers HeaderMap
| Request_nil

record CommonResponse =
  SetHeaders :: HeaderMap
  BodyMutation :: "string option"

type_synonym StatusCode = nat

definition StatusCode_TooManyRequests :: StatusCode where
  "StatusCode_TooManyRequests = 429"

datatype ProcessingResponse =
  ProcessingResponse_RequestHeaders CommonResponse
| ProcessingResponse_RequestBody CommonResponse
| ProcessingResponse_ResponseHeaders CommonResponse
| ProcessingResponse_ResponseBody CommonResponse
| ProcessingResponse_ImmediateResponse StatusCode

subsection \<open>The request context\<close>

text \<open>
  Modelled from the spec: the declarations of \<open>backend.Pod\<close>, \<open>Response\<close> and \<open>Usage\<close> are
  not among the sources. A backend is identified by namespace, name and address; a
  response carries the usage, whose two counts \<open>Process\<close> reads as \<open>int\<close> fields.
\<close>

record Pod =
  Namespace :: string
  Name :: string
  Address :: string

record Usage =
  PromptTokens :: int
  CompletionTokens :: int

record Response =
  Usage :: Usage

record RequestContext =
  TargetPod :: Pod
  Model :: string
  ResolvedTargetModel :: string
  RequestReceivedTimestamp :: time
  ResponseCompleteTimestamp :: time
  RequestSize :: int
  Response :: Response
  ResponseSize :: int
  ResponseComplete :: bool

text \<open>\<open>&RequestContext{}\<close>: every field at its zero value.\<close>

definition RequestContext_zero :: RequestContext where
  "RequestContext_zero =
     \<lparr>TargetPod = \<lparr>Namespace = [], Name = [], Address = []\<rparr>,
      Model = [], ResolvedTargetModel = [],
      RequestReceivedTimestamp = 0, ResponseCompleteTimestamp = 0,
      RequestSize = 0,
      Response = \<lparr>Usage = \<lparr>PromptTokens = 0, CompletionTokens = 0\<rparr>\<rparr>,
      ResponseSize = 0, ResponseComplete = False\<rparr>"

subsection \<open>The handlers\<close>

text \<open>
  The four handlers that \<open>Process\<close> calls are not among the sources. They are parameters
  of the model: each takes the request context and the request and gives back the context
  as it left it, the response and, for the three that can fail, the error. The traces hold
  the calls that \<open>Process\<close> itself makes into the packages \<open>metrics\<close> and \<open>klog\<close>; what a
  handler may log or record on its own is not part of them.
\<close>

record handlers =
  HandleRequestHeaders ::
    "RequestContext \<Rightarrow> ProcessingRequest \<Rightarrow> RequestContext \<times> ProcessingResponse option"
  HandleRequestBody ::
    "RequestContext \<Rightarrow> ProcessingRequest \<Rightarrow>
       RequestContext \<times> ProcessingResponse option \<times> error option"
  HandleResponseHeaders ::
    "RequestContext \<Rightarrow> ProcessingRequest \<Rightarrow>
       RequestContext \<times> ProcessingResponse option \<times> error option"
  HandleResponseBody ::
    "RequestContext \<Rightarrow> ProcessingRequest \<Rightarrow>
       RequestContext \<times> ProcessingResponse option \<times> error option"

subsection \<open>Server.Process\<close>

text \<open>
  What the stream and the clock give to one turn of the loop: the context's error at the
  \<open>select\<close> (\<open>None\<close> while the context is not done), the result of \<open>srv.Recv()\<close>, the reading
  of \<open>time.Now()\<close> and the result of \<open>srv.Send\<close>. A turn that returns early leaves the rest
  unread.
\<close>

record turn =
  ctx_Err :: "error option"
  Recv :: "error + ProcessingRequest"
  time_Now :: time
  Send :: "error option"

text \<open>
  The state of one call of \<open>Process\<close>: the request context, the arguments of the calls of
  \<open>srv.Send\<close> in order, and the traces of package \<open>metrics\<close> and \<open>klog\<close>.
\<close>

record process_state =
  reqCtx :: RequestContext
  sends :: "ProcessingResponse option list"
  tel :: telemetry

text \<open>
  The type switch on the request. \<open>None\<close> is the \<open>default\<close> branch; otherwise the context,
  the response, the error and the traces after the branch.
\<close>

fun dispatch ::
  "handlers \<Rightarrow> time \<Rightarrow> ProcessingRequest \<Rightarrow> RequestContext \<Rightarrow> telemetry \<Rightarrow>
     (RequestContext \<times> ProcessingResponse option \<times> error option \<times> telemetry) option" where
  "dispatch hs now (ProcessingRequest_RequestHeaders v) c t =
     (let c0 = c\<lparr>RequestReceivedTimestamp := now\<rparr>;
          (c1, resp) = HandleRequestHeaders hs c0 (ProcessingRequest_RequestHeaders v)
      in Some (c1, resp, None, t))"
| "dispatch hs now (ProcessingRequest_RequestBody v) c t =
     (let (c1, resp, err) = HandleRequestBody hs c (ProcessingRequest_RequestBody v) in
      if err = None then
        let t1 = RecordRequestCounter (Model c1) (ResolvedTargetModel c1) t;
            t2 = RecordRequestSizes (Model c1) (ResolvedTargetModel c1) (RequestSize c1) t1
        in Some (c1, resp, err, t2)
      else Some (c1, resp, err, t))"
| "dispatch hs now (ProcessingRequest_ResponseHeaders v) c t =
     (let (c1, resp, err) = HandleResponseHeaders hs c (ProcessingRequest_ResponseHeaders v)
      in Some (c1, resp, err, t))"
| "dispatch hs now (ProcessingRequest_ResponseBody v) c t =
     (let (c1, resp, err) = HandleResponseBody hs c (ProcessingRequest_ResponseBody v) in
      if err = None \<and> ResponseComplete c1 then
        let c2 = c1\<lparr>ResponseCompleteTimestamp := now\<rparr>;
            (ok, t1) = RecordRequestLatencies (Model c2) (ResolvedTargetModel c2)
                         (RequestReceivedTimestamp c2) (ResponseCompleteTimestamp c2) t;
            t2 = RecordResponseSizes (Model c2) (ResolvedTargetModel c2) (ResponseSize c2) t1;
            t3 = RecordInputTokens (Model c2) (ResolvedTargetModel c2)
                   (PromptTokens (Usage (Response c2))) t2;
            t4 = RecordOutputTokens (Model c2) (ResolvedTargetModel c2)
                   (CompletionTokens (Usage (Response c2))) t3
        in Some (c2, resp, err, t4)
      else Some (c1, resp, err, t))"
| "dispatch hs now v c t = None"

text \<open>
  One turn of the loop. \<open>Some r\<close> in the first component: \<open>Process\<close> returns \<open>r\<close> (\<open>None\<close> is
  \<open>nil\<close>); \<open>None\<close>: the loop goes on to its next turn.
\<close>

definition log_Errorf :: "string \<Rightarrow> telemetry \<Rightarrow> telemetry" where
  "log_Errorf fmt t = t\<lparr>klog := klog t @ [Errorf fmt]\<rparr>"

definition do_Send ::
  "turn \<Rightarrow> ProcessingResponse option \<Rightarrow> process_state \<Rightarrow> error option option \<times> process_state" where
  "do_Send it resp st =
     (let st1 = st\<lparr>sends := sends st @ [resp]\<rparr> in
      case Send it of
        Some err \<Rightarrow>
          (Some (status_Error Unknown
                   (''failed to send response back to Envoy: '' @ Error_string err)),
           st1\<lparr>tel := log_Errorf ''send error %v'' (tel st1)\<rparr>)
      | None \<Rightarrow> (None, st1))"

definition Process_turn ::
  "handlers \<Rightarrow> turn \<Rightarrow> process_state \<Rightarrow> error option option \<times> process_state" where
  "Process_turn hs it st =
     (case ctx_Err it of
        Some e \<Rightarrow> (Some (Some e), st)
      | None \<Rightarrow>
         (case Recv it of
            Inl err \<Rightarrow>
              if err = io_EOF then (Some None, st)
              else (Some (status_Error Unknown
                            (''cannot receive stream request: '' @ Error_string err)), st)
          | Inr req \<Rightarrow>
             (case dispatch hs (time_Now it) req (reqCtx st) (tel st) of
                None \<Rightarrow>
                  (Some (status_Error Unknown ''unknown request type''),
                   st\<lparr>tel := log_Errorf ''Unknown Request type %+v'' (tel st)\<rparr>)
              | Some (c, resp, err, t) \<Rightarrow>
                 (case err of
                    None \<Rightarrow> do_Send it resp (st\<lparr>reqCtx := c, tel := t\<rparr>)
                  | Some e \<Rightarrow>
                     (let st1 = st\<lparr>reqCtx := c,
                                   tel := log_Errorf ''failed to process request: %v'' t\<rparr> in
                      if status_Code e = ResourceExhausted then
                        do_Send it
                          (Some (ProcessingResponse_ImmediateResponse StatusCode_TooManyRequests))
                          st1
                      else
                        (Some (status_Error (status_Code e)
                                 (''failed to handle request: '' @ Error_string e)), st1))))))"

text \<open>
  The loop over the turns the stream offers. \<open>Returned r\<close>: \<open>Process\<close> has returned \<open>r\<close>.
  \<open>Running\<close>: the turns are used up and \<open>Process\<close> has not returned; it waits in \<open>Recv\<close>.
\<close>

datatype outcome = Running | Returned "error option"

fun Process_loop :: "handlers \<Rightarrow> process_state \<Rightarrow> turn list \<Rightarrow> outcome \<times> process_state" where
  "Process_loop hs st [] = (Running, st)"
| "Process_loop hs st (it # its) =
     (case Process_turn hs it st of
        (Some r, st1) \<Rightarrow> (Returned r, st1)
      | (None, st1) \<Rightarrow> Process_loop hs st1 its)"

definition Process :: "handlers \<Rightarrow> telemetry \<Rightarrow> turn list \<Rightarrow> outcome \<times> process_state" where
  "Process hs t its = Process_loop hs \<lparr>reqCtx = RequestContext_zero, sends = [], tel = t\<rparr> its"

subsection \<open>Reading the traces\<close>

fun collector_of :: "metric_event \<Rightarrow> collector" where
  "collector_of (Inc k ls) = k"
| "collector_of (Observe k ls v) = k"

text \<open>The events of a trace that belong to one of the given collectors.\<close>

definition events_of :: "collector list \<Rightarrow> metric_event list \<Rightarrow> metric_event list" where
  "events_of ks evs = filter (\<lambda>ev. collector_of ev \<in> set ks) evs"

text \<open>
  The handler that the type switch calls for a request, for the three branches whose
  handler can return an error.
\<close>

fun fallible_handler ::
  "handlers \<Rightarrow> ProcessingRequest \<Rightarrow>
     (RequestContext \<Rightarrow> ProcessingRequest \<Rightarrow>
        RequestContext \<times> ProcessingResponse option \<times> error option) option" where
  "fallible_handler hs (ProcessingRequest_RequestBody v) = Some (HandleRequestBody hs)"
| "fallible_handler hs (ProcessingRequest_ResponseHeaders v) = Some (HandleResponseHeaders hs)"
| "fallible_handler hs (ProcessingRequest_ResponseBody v) = Some (HandleResponseBody hs)"
| "fallible_handler hs v = None"

text \<open>Whether a request is of one of the four types that the switch names.\<close>

fun known_request :: "ProcessingRequest \<Rightarrow> bool" where
  "known_request (ProcessingRequest_RequestHeaders v) = True"
| "known_request (ProcessingRequest_RequestBody v) = True"
| "known_request (ProcessingRequest_ResponseHeaders v) = True"
| "known_request (ProcessingRequest_ResponseBody v) = True"
| "known_request v = False"

subsection \<open>A sample stream\<close>

text \<open>
  One concrete set of handlers, to run the loop on concrete streams. The body handler
  fails on an empty body with a plain error, is shed on the body \<open>shed\<close> and finds no
  backend on the body \<open>none\<close>; otherwise it resolves the model. The response body handler
  takes the size and marks the response complete at the end of the stream; it finds no
  usage, so the usage stays at its zero value.
\<close>

definition continue_response :: CommonResponse where
  "continue_response = \<lparr>SetHeaders = [], BodyMutation = None\<rparr>"

definition sample_HandleRequestBody ::
  "RequestContext \<Rightarrow> ProcessingRequest \<Rightarrow>
     RequestContext \<times> ProcessingResponse option \<times> error option" where
  "sample_HandleRequestBody c req =
     (case req of
        ProcessingRequest_RequestBody b \<Rightarrow>
          if Body b = [] then (c, None, Some (PlainError ''error unmarshaling request body''))
          else if Body b = ''shed'' then
            (c\<lparr>Model := ''m'', ResolvedTargetModel := ''t''\<rparr>, None,
             Some (StatusError ResourceExhausted ''failed to apply filter''))
          else if Body b = ''none'' then
            (c\<lparr>Model := ''m'', ResolvedTargetModel := ''t''\<rparr>, None,
             Some (StatusError Internal ''failed to find target pod''))
          else
            (c\<lparr>Model := ''m'', ResolvedTargetModel := ''t'',
               RequestSize := int (length (Body b))\<rparr>,
             Some (ProcessingResponse_RequestBody
                     \<lparr>SetHeaders = [(''target-pod'', ''10.0.0.1:8000'')],
                      BodyMutation = Some (Body b)\<rparr>),
             None)
      | _ \<Rightarrow> (c, None, Some (PlainError ''not a request body'')))"

definition sample_HandleResponseBody ::
  "RequestContext \<Rightarrow> ProcessingRequest \<Rightarrow>
     RequestContext \<times> ProcessingResponse option \<times> error option" where
  "sample_HandleResponseBody c req =
     (case req of
        ProcessingRequest_ResponseBody b \<Rightarrow>
          (c\<lparr>ResponseSize := int (length (Body b)), ResponseComplete := EndOfStream b\<rparr>,
           Some (ProcessingResponse_ResponseBody continue_response), None)
      | _ \<Rightarrow> (c, None, Some (PlainError ''not a response body'')))"

definition sample_handlers :: handlers where
  "sample_handlers =
     \<lparr>HandleRequestHeaders =
        (\<lambda>c req. (c, Some (ProcessingResponse_RequestHeaders continue_response))),
      HandleRequestBody = sample_HandleRequestBody,
      HandleResponseHeaders =
        (\<lambda>c req. (c, Some (ProcessingResponse_ResponseHeaders continue_response), None)),
      HandleResponseBody = sample_HandleResponseBody\<rparr>"

text \<open>A turn in which the context is not done, the request arrives and \<open>Send\<close> succeeds.\<close>

definition arrives :: "time \<Rightarrow> ProcessingRequest \<Rightarrow> turn" where
  "arrives now req = \<lparr>ctx_Err = None, Recv = Inr req, time_Now = now, Send = None\<rparr>"

text \<open>A turn in which \<open>Recv\<close> fails; a turn that finds the context done.\<close>

definition recv_fails :: "error \<Rightarrow> turn" where
  "recv_fails err = \<lparr>ctx_Err = None, Recv = Inl err, time_Now = 0, Send = None\<rparr>"

definition cancelled :: "error \<Rightarrow> turn" where
  "cancelled err = \<lparr>ctx_Err = Some err, Recv = Inl err, time_Now = 0, Send = None\<rparr>"

definition no_telemetry :: telemetry where
  "no_telemetry = \<lparr>metrics = [], klog = []\<rparr>"

definition start :: process_state where
  "start = \<lparr>reqCtx = RequestContext_zero, sends = [], tel = no_telemetry\<rparr>"

definition req_headers :: ProcessingRequest where
  "req_headers = ProcessingRequest_RequestHeaders [('':path'', ''/v1/completions'')]"

definition req_body :: "string \<Rightarrow> ProcessingRequest" where
  "req_body b = ProcessingRequest_RequestBody \<lparr>Body = b, EndOfStream = True\<rparr>"

definition resp_headers :: ProcessingRequest where
  "resp_headers = ProcessingRequest_ResponseHeaders [('':status'', ''200'')]"

definition resp_body :: "string \<Rightarrow> bool \<Rightarrow> ProcessingRequest" where
  "resp_body b eos = ProcessingRequest_ResponseBody \<lparr>Body = b, EndOfStream = eos\<rparr>"

definition initial_registry :: registry where
  "initial_registry = \<lparr>registerMetrics = False, legacyregistry = []\<rparr>"

text \<open>
  The turns of one request up to its response headers, and the state of \<open>Process\<close> after
  them on the sample handlers; the first of these turns alone, and the state after it.
\<close>

definition request_turns :: "turn list" where
  "request_turns =
     [arrives 100 req_headers, arrives 200 (req_body ''abc''), arrives 300 resp_headers]"

definition awaiting_response :: process_state where
  "awaiting_response =
     \<lparr>reqCtx = RequestContext_zero
        \<lparr>Model := ''m'', ResolvedTargetModel := ''t'',
         RequestReceivedTimestamp := 100, RequestSize := 3\<rparr>,
      sends =
        [Some (ProcessingResponse_RequestHeaders continue_response),
         Some (ProcessingResponse_RequestBody
                 \<lparr>SetHeaders = [(''target-pod'', ''10.0.0.1:8000'')],
                  BodyMutation = Some ''abc''\<rparr>),
         Some (ProcessingResponse_ResponseHeaders continue_response)],
      tel = \<lparr>metrics = [Inc requestCounter [''m'', ''t''],
                         Observe requestSizes [''m'', ''t''] 3],
             klog = []\<rparr>\<rparr>"

definition header_turns :: "turn list" where
  "header_turns = [arrives 100 req_headers]"

definition awaiting_body :: process_state where
  "awaiting_body =
     \<lparr>reqCtx = RequestContext_zero\<lparr>RequestReceivedTimestamp := 100\<rparr>,
      sends = [Some (ProcessingResponse_RequestHeaders continue_response)],
      tel = no_telemetry\<rparr>"

subsection \<open>The response body handler of the specification\<close>

text \<open>
  Modelled from the spec: the function \<open>HandleResponseBody\<close> is not among the sources. The
  specification says of a response body message: accumulate the size, parse the usage if
  the chunk has one, and at \<open>end_of_stream\<close> the request is done; the response is passed
  through. Reading the usage out of the bytes is a parameter, \<open>None\<close> for a chunk without
  a usage. \<open>Process\<close> calls the handler on a response body only; for any other request the
  model gives an error.
\<close>

definition HandleResponseBody_spec ::
  "(string \<Rightarrow> Usage option) \<Rightarrow> RequestContext \<Rightarrow> ProcessingRequest \<Rightarrow>
     RequestContext \<times> ProcessingResponse option \<times> error option" where
  "HandleResponseBody_spec parse_usage c req =
     (case req of
        ProcessingRequest_ResponseBody b \<Rightarrow>
          (let c1 = c\<lparr>ResponseSize := ResponseSize c + int (length (Body b))\<rparr>;
               c2 = (case parse_usage (Body b) of
                       Some u \<Rightarrow> c1\<lparr>Response := \<lparr>Usage = u\<rparr>\<rparr>
                     | None \<Rightarrow> c1);
               c3 = (if EndOfStream b then c2\<lparr>ResponseComplete := True\<rparr> else c2)
           in (c3, Some (ProcessingResponse_ResponseBody continue_response), None))
      | _ \<Rightarrow> (c, None, Some (PlainError ''not a response body'')))"

text \<open>The sample handlers with the response body handler of the specification.\<close>

definition spec_handlers :: "(string \<Rightarrow> Usage option) \<Rightarrow> handlers" where
  "spec_handlers parse_usage =
     sample_handlers\<lparr>HandleResponseBody := HandleResponseBody_spec parse_usage\<rparr>"

text \<open>A stream none of whose chunks carries a usage.\<close>

definition no_usage :: "string \<Rightarrow> Usage option" where
  "no_usage b = None"

section \<open>Properties of package metrics\<close>

text \<open>
  C5, as the code has it. \<open>RecordRequestLatencies\<close> returns true exactly when the completion
  time is strictly after the received time. In that case it adds one observation to the
  latency histogram, labelled by the model and the target model, whose value is the number
  of seconds of \<open>complete.Sub(received)\<close>: the difference of the two instants, capped at the
  largest \<open>Duration\<close>. When the completion time is at or before the received time it
  observes nothing, logs an error and returns false.
\<close>

theorem RecordRequestLatencies_result:
  "fst (RecordRequestLatencies m t received completeT tm) = (received < completeT)
   \<and> (received < completeT \<longrightarrow>
        metrics (snd (RecordRequestLatencies m t received completeT tm)) =
          metrics tm @
            [Observe requestLatencies [m, t]
               (real_of_int (min (completeT - received) maxDuration) / 1000000000)])
   \<and> (completeT \<le> received \<longrightarrow>
        metrics (snd (RecordRequestLatencies m t received completeT tm)) = metrics tm
        \<and> klog (snd (RecordRequestLatencies m t received completeT tm)) =
            klog tm @ [Errorf ''request latency value error for model name %v, target model name %v: complete time %v is before received time %v''])"
proof -
  have capped: "Sub completeT received = min (completeT - received) maxDuration"
    if "received < completeT"
    using that by (simp add: Sub_def Let_def minDuration_def min_def)
  show ?thesis
    by (simp add: RecordRequestLatencies_def After_def Let_def capped Seconds_def)
qed

text \<open>
  The received time is the zero \<open>Time\<close>, as it is in a request context that has seen no
  request headers, and the completion time lies some 2025 years after it: the value
  observed is the largest \<open>Duration\<close> in seconds, not the difference of the two instants.
\<close>

theorem RecordRequestLatencies_result_counterexample:
  "fst (RecordRequestLatencies ''m10'' ''t10'' 0 63900000000000000000 no_telemetry)
   \<and> metrics (snd (RecordRequestLatencies ''m10'' ''t10'' 0 63900000000000000000 no_telemetry)) =
       [Observe requestLatencies [''m10'', ''t10''] (9223372036854775807 / 1000000000)]
   \<and> metrics (snd (RecordRequestLatencies ''m10'' ''t10'' 0 63900000000000000000 no_telemetry)) \<noteq>
       [Observe requestLatencies [''m10'', ''t10'']
          (real_of_int (63900000000000000000 - 0) / 1000000000)]"
  by (simp add: RecordRequestLatencies_def After_def Sub_def Seconds_def maxDuration_def
      minDuration_def no_telemetry_def Let_def)

text \<open>
  The two requests of the package's latency test: ten milliseconds from received to
  complete, and the same two instants the other way round.
\<close>

theorem RecordRequestLatencies_result_witness:
  "fst (RecordRequestLatencies ''m10'' ''t10'' 0 10000000 no_telemetry)
   \<and> metrics (snd (RecordRequestLatencies ''m10'' ''t10'' 0 10000000 no_telemetry)) =
       [Observe requestLatencies [''m10'', ''t10''] (1 / 100)]
   \<and> \<not> fst (RecordRequestLatencies ''m10'' ''t10'' 10000000 0 no_telemetry)
   \<and> metrics (snd (RecordRequestLatencies ''m10'' ''t10'' 10000000 0 no_telemetry)) = []"
  using RecordRequestLatencies_result [of "''m10''" "''t10''" 0 10000000 no_telemetry]
        RecordRequestLatencies_result [of "''m10''" "''t10''" 10000000 0 no_telemetry]
  by (simp add: no_telemetry_def maxDuration_def)

subsection \<open>Registration\<close>

lemma fqName_inj: "fqName a = fqName b \<Longrightarrow> a = b"
  by (cases a; cases b; simp add: InferenceModelComponent_def)

lemma Register_fresh:
  assumes "\<not> registerMetrics s" and "\<forall>c. fqName c \<notin> set (legacyregistry s)"
  shows "Register s =
           (None, \<lparr>registerMetrics = True,
                   legacyregistry = legacyregistry s @
                     [fqName requestCounter, fqName requestLatencies, fqName requestSizes,
                      fqName responseSizes, fqName inputTokens, fqName outputTokens]\<rparr>)"
proof -
  have fresh: "fqName c \<notin> set (legacyregistry s)" for c
    using assms(2) by blast
  have neq: "fqName a \<noteq> fqName b" if "a \<noteq> b" for a b
    using that fqName_inj by blast
  show ?thesis
    using assms(1)
    by (simp add: Register_def MustRegister_def fresh neq del: fqName.simps)
qed

lemma Register_fired: "registerMetrics s \<Longrightarrow> Register s = (None, s)"
  by (simp add: Register_def)

lemma Register_times_fired: "registerMetrics s \<Longrightarrow> Register_times n s = s"
  by (induction n) (simp_all add: Register_fired)

lemma Register_fires: "registerMetrics (snd (Register s))"
  by (simp add: Register_def split: prod.splits)

lemma Register_times_Suc: "Register_times (Suc n) s = snd (Register s)"
  by (simp add: Register_times_fired Register_fires)

text \<open>
  C10. \<open>Register\<close> is idempotent. From a process in which \<open>Register\<close> has not run and none of
  the six collectors is in the registry, the first call registers them without a panic, and
  after any number \<open>n > 0\<close> of calls each of the six is in the registry exactly once: the
  registry is the one the first call left, and one more call returns without changing it.
\<close>

theorem Register_once:
  assumes "\<not> registerMetrics s" and "\<forall>c. fqName c \<notin> set (legacyregistry s)" and "0 < n"
  shows "fst (Register s) = None
       \<and> (\<forall>c. count_list (legacyregistry (Register_times n s)) (fqName c) = 1)
       \<and> Register_times n s = Register_times 1 s
       \<and> Register (Register_times n s) = (None, Register_times n s)"
proof -
  from assms(3) obtain k where n: "n = Suc k"
    by (cases n) simp_all
  have fresh: "count_list (legacyregistry s) (fqName c) = 0" for c
    using assms(2) by (simp add: count_list_0_iff)
  have neq: "fqName a \<noteq> fqName b" if "a \<noteq> b" for a b
    using that fqName_inj by blast
  have once: "count_list (legacyregistry (snd (Register s))) (fqName c) = 1" for c
    by (cases c) (simp_all add: Register_fresh [OF assms(1,2)] fresh neq del: fqName.simps)
  have first: "fst (Register s) = None"
    by (simp add: Register_fresh [OF assms(1,2)])
  have same: "Register_times n s = snd (Register s)" "Register_times 1 s = snd (Register s)"
    unfolding n One_nat_def by (rule Register_times_Suc)+
  have noop: "Register (snd (Register s)) = (None, snd (Register s))"
    by (rule Register_fired) (rule Register_fires)
  show ?thesis
    unfolding same using first once noop by blast
qed

text \<open>Three calls in a process that starts with an empty registry.\<close>

theorem Register_once_witness:
  "fst (Register initial_registry) = None
   \<and> legacyregistry (Register_times 3 initial_registry) =
       [''inference_model_request_total'', ''inference_model_request_duration_seconds'',
        ''inference_model_request_sizes'', ''inference_model_response_sizes'',
        ''inference_model_input_tokens'', ''inference_model_output_tokens'']
   \<and> Register (Register_times 3 initial_registry) = (None, Register_times 3 initial_registry)"
proof -
  have a: "\<not> registerMetrics initial_registry"
    "\<forall>c. fqName c \<notin> set (legacyregistry initial_registry)"
    by (simp_all add: initial_registry_def)
  have b: "Register_times 1 initial_registry =
      \<lparr>registerMetrics = True, legacyregistry =
       [''inference_model_request_total'', ''inference_model_request_duration_seconds'',
        ''inference_model_request_sizes'', ''inference_model_response_sizes'',
        ''inference_model_input_tokens'', ''inference_model_output_tokens'']\<rparr>"
    by (simp add: Register_def MustRegister_def initial_registry_def InferenceModelComponent_def)
  from Register_once [OF a, of 3] show ?thesis
    by (simp only: b registry.simps) (simp add: Register_def)
qed

section \<open>Properties of Server.Process\<close>

subsection \<open>The loop\<close>

lemma Process_loop_append:
  "Process_loop hs st pre = (Running, st1) \<Longrightarrow>
   Process_loop hs st (pre @ its) = Process_loop hs st1 its"
  by (induction pre arbitrary: st) (auto split: prod.splits option.splits)

lemma Process_loop_single: "snd (Process_loop hs st [it]) = snd (Process_turn hs it st)"
  by (simp split: prod.splits option.splits)

lemma Process_loop_snoc:
  "Process_loop hs st pre = (Running, st1) \<Longrightarrow>
   snd (Process_loop hs st (pre @ [it])) = snd (Process_turn hs it st1)"
  by (simp only: Process_loop_append Process_loop_single)

lemma Process_turn_cancelled:
  "ctx_Err it = Some e \<Longrightarrow> Process_turn hs it st = (Some (Some e), st)"
  by (simp add: Process_turn_def)

lemma Process_turn_EOF:
  "ctx_Err it = None \<Longrightarrow> Recv it = Inl io_EOF \<Longrightarrow> Process_turn hs it st = (Some None, st)"
  by (simp add: Process_turn_def)

subsection \<open>The type switch\<close>

lemma dispatch_unknown: "\<not> known_request req \<Longrightarrow> dispatch hs now req c t = None"
  by (cases req) simp_all

lemma dispatch_error:
  "fallible_handler hs req = Some h \<Longrightarrow> h c req = (c1, resp, Some e) \<Longrightarrow>
   dispatch hs now req c t = Some (c1, resp, Some e, t)"
  by (cases req) auto

lemma dispatch_RequestBody_ok:
  "HandleRequestBody hs c (ProcessingRequest_RequestBody v) = (c1, resp, None) \<Longrightarrow>
   dispatch hs now (ProcessingRequest_RequestBody v) c t =
     Some (c1, resp, None,
       t\<lparr>metrics := metrics t @
           [Inc requestCounter [Model c1, ResolvedTargetModel c1],
            Observe requestSizes [Model c1, ResolvedTargetModel c1] (float64 (RequestSize c1))]\<rparr>)"
  by (simp add: RecordRequestCounter_def RecordRequestSizes_def)

lemma dispatch_ResponseBody_partial:
  "HandleResponseBody hs c (ProcessingRequest_ResponseBody v) = (c1, resp, err) \<Longrightarrow>
   \<not> ResponseComplete c1 \<Longrightarrow>
   dispatch hs now (ProcessingRequest_ResponseBody v) c t = Some (c1, resp, err, t)"
  by simp

lemma dispatch_ResponseBody_complete:
  assumes "HandleResponseBody hs c (ProcessingRequest_ResponseBody v) = (c1, resp, None)"
    and "ResponseComplete c1"
  shows "\<exists>t1. dispatch hs now (ProcessingRequest_ResponseBody v) c t =
            Some (c1\<lparr>ResponseCompleteTimestamp := now\<rparr>, resp, None, t1)
          \<and> metrics t1 = metrics t @
              (if RequestReceivedTimestamp c1 < now
               then [Observe requestLatencies [Model c1, ResolvedTargetModel c1]
                       (Seconds (Sub now (RequestReceivedTimestamp c1)))]
               else []) @
              [Observe responseSizes [Model c1, ResolvedTargetModel c1] (float64 (ResponseSize c1)),
               Observe inputTokens [Model c1, ResolvedTargetModel c1]
                 (float64 (PromptTokens (Usage (Response c1)))),
               Observe outputTokens [Model c1, ResolvedTargetModel c1]
                 (float64 (CompletionTokens (Usage (Response c1))))]"
  using assms
  by (simp add: RecordRequestLatencies_def RecordResponseSizes_def RecordInputTokens_def
      RecordOutputTokens_def After_def Let_def)

lemma dispatch_ResponseBody_Some:
  "\<exists>c1 resp err t1.
     dispatch hs now (ProcessingRequest_ResponseBody v) c t = Some (c1, resp, err, t1)"
proof -
  have "dispatch hs now (ProcessingRequest_ResponseBody v) c t \<noteq> None"
    by (simp add: Let_def split: prod.splits)
  then obtain r where "dispatch hs now (ProcessingRequest_ResponseBody v) c t = Some r"
    by blast
  then show ?thesis by (cases r) blast
qed

lemma dispatch_ResponseBody_request_events:
  "dispatch hs now (ProcessingRequest_ResponseBody v) c t = Some (c1, resp, err, t1) \<Longrightarrow>
   events_of [requestCounter, requestSizes] (metrics t1) =
   events_of [requestCounter, requestSizes] (metrics t)"
  by (auto simp: RecordRequestLatencies_def RecordResponseSizes_def RecordInputTokens_def
      RecordOutputTokens_def Let_def events_of_def split: prod.splits if_splits)

subsection \<open>Sending\<close>

lemma do_Send_metrics: "metrics (tel (snd (do_Send it resp st))) = metrics (tel st)"
  by (simp add: do_Send_def Let_def log_Errorf_def split: option.splits)

lemma do_Send_reqCtx: "reqCtx (snd (do_Send it resp st)) = reqCtx st"
  by (simp add: do_Send_def Let_def split: option.splits)

lemma do_Send_ok: "Send it = None \<Longrightarrow> do_Send it resp st = (None, st\<lparr>sends := sends st @ [resp]\<rparr>)"
  by (simp add: do_Send_def Let_def)

text \<open>After its branch of the switch, a turn changes neither the context nor the metrics.\<close>

lemma Process_turn_dispatched:
  assumes "ctx_Err it = None" and "Recv it = Inr req"
    and "dispatch hs (time_Now it) req (reqCtx st) (tel st) = Some (c, resp, err, t)"
  shows "reqCtx (snd (Process_turn hs it st)) = c"
    and "metrics (tel (snd (Process_turn hs it st))) = metrics t"
  using assms
  by (auto simp: Process_turn_def Let_def do_Send_metrics do_Send_reqCtx log_Errorf_def
      split: option.splits)

subsection \<open>The sample stream\<close>

lemmas sample_defs =
  Process_def Process_turn_def do_Send_def log_Errorf_def status_Error_def
  sample_handlers_def sample_HandleRequestBody_def sample_HandleResponseBody_def
  continue_response_def arrives_def recv_fails_def cancelled_def no_telemetry_def start_def
  req_headers_def req_body_def resp_headers_def resp_body_def RequestContext_zero_def
  RecordRequestCounter_def RecordRequestSizes_def RecordRequestLatencies_def
  RecordResponseSizes_def RecordInputTokens_def RecordOutputTokens_def
  After_def Sub_def Seconds_def float64_def maxDuration_def minDuration_def
  StatusCode_TooManyRequests_def events_of_def Let_def

lemma request_turns_run:
  "Process_loop sample_handlers start request_turns = (Running, awaiting_response)"
  by (simp add: sample_defs request_turns_def awaiting_response_def)

lemma header_turns_run:
  "Process_loop sample_handlers start header_turns = (Running, awaiting_body)"
  by (simp add: sample_defs header_turns_def awaiting_body_def)

lemma arrives_sel:
  "ctx_Err (arrives now req) = None" "Recv (arrives now req) = Inr req"
  "time_Now (arrives now req) = now" "Send (arrives now req) = None"
  by (simp_all add: arrives_def)

lemma sample_complete:
  "HandleResponseBody sample_handlers (reqCtx awaiting_response)
     (ProcessingRequest_ResponseBody \<lparr>Body = ''wxyz'', EndOfStream = True\<rparr>) =
   (reqCtx awaiting_response\<lparr>ResponseSize := 4, ResponseComplete := True\<rparr>,
    Some (ProcessingResponse_ResponseBody continue_response), None)"
  by (simp add: sample_handlers_def sample_HandleResponseBody_def)

section \<open>What Process does with the stream\<close>

subsection \<open>Returning\<close>

text \<open>
  C6. Once a turn of the loop finds the context done, \<open>Process\<close> returns the context's error
  in that turn: it calls neither \<open>Recv\<close> nor \<open>Send\<close>, whatever the stream holds, and the
  responses sent, the request context and the traces are those of the turns before.
\<close>

theorem Process_context_done:
  assumes "Process_loop hs st pre = (Running, st1)"
    and "ctx_Err it = Some e"
  shows "Process_loop hs st (pre @ it # its) = (Returned (Some e), st1)"
  using assms by (simp add: Process_loop_append Process_turn_cancelled)

text \<open>The context is cancelled after the response headers; a response body is still to come.\<close>

theorem Process_context_done_witness:
  "Process_loop sample_handlers start
     (request_turns @ cancelled context_Canceled # [arrives 400 (resp_body ''wxyz'' True)]) =
   (Returned (Some context_Canceled), awaiting_response)"
  using Process_context_done [OF request_turns_run, of "cancelled context_Canceled"]
  by (simp add: cancelled_def)

text \<open>
  C9. When \<open>Recv\<close> gives \<open>io.EOF\<close>, \<open>Process\<close> returns \<open>nil\<close>; it sends nothing more and records
  nothing: the responses sent and the traces are those of the turns before.
\<close>

theorem Process_Recv_EOF:
  assumes "Process_loop hs st pre = (Running, st1)"
    and "ctx_Err it = None" and "Recv it = Inl io_EOF"
  shows "Process_loop hs st (pre @ it # its) = (Returned None, st1)"
  using assms by (simp add: Process_loop_append Process_turn_EOF)

text \<open>The peer closes the stream after the response headers.\<close>

theorem Process_Recv_EOF_witness:
  "Process_loop sample_handlers start
     (request_turns @ recv_fails io_EOF # [arrives 400 (resp_body ''wxyz'' True)]) =
   (Returned None, awaiting_response)"
  using Process_Recv_EOF [OF request_turns_run, of "recv_fails io_EOF"]
  by (simp add: recv_fails_def)

text \<open>
  C8. For a request that is of none of the four types of the switch, \<open>Process\<close> returns a
  status error of code \<open>Unknown\<close> and sends nothing for it: the responses sent, the request
  context and the metrics are those of the turns before, and one error line is logged.
\<close>

theorem Process_unknown_request:
  assumes "Process_loop hs st pre = (Running, st1)"
    and "ctx_Err it = None" and "Recv it = Inr req" and "\<not> known_request req"
  shows "Process_loop hs st (pre @ it # its) =
           (Returned (Some (StatusError Unknown ''unknown request type'')),
            st1\<lparr>tel := (tel st1)\<lparr>klog := klog (tel st1) @ [Errorf ''Unknown Request type %+v'']\<rparr>\<rparr>)"
proof -
  have "Process_turn hs it st1 =
     (Some (Some (StatusError Unknown ''unknown request type'')),
      st1\<lparr>tel := log_Errorf ''Unknown Request type %+v'' (tel st1)\<rparr>)"
    using assms(2-4) by (simp add: Process_turn_def dispatch_unknown status_Error_def)
  then show ?thesis
    using assms(1) by (simp add: Process_loop_append log_Errorf_def)
qed

text \<open>Response trailers arrive after the response headers.\<close>

theorem Process_unknown_request_witness:
  "Process_loop sample_handlers start
     (request_turns @ arrives 400 (ProcessingRequest_ResponseTrailers []) #
        [arrives 500 (resp_body ''wxyz'' True)]) =
   (Returned (Some (StatusError Unknown ''unknown request type'')),
    awaiting_response\<lparr>tel := (tel awaiting_response)
      \<lparr>klog := [Errorf ''Unknown Request type %+v'']\<rparr>\<rparr>)"
  using Process_unknown_request [OF request_turns_run arrives_sel(1) arrives_sel(2),
      of "ProcessingRequest_ResponseTrailers []" 400]
  by (simp add: awaiting_response_def)

subsection \<open>Errors of the handlers\<close>

text \<open>
  C1, as the code has it. When the handler of a request returns an error of code
  \<open>ResourceExhausted\<close>, \<open>Process\<close> sends an immediate response of status 429 and, the send
  succeeding, goes on with the next turn. When the handler returns any other error,
  \<open>Process\<close> sends nothing for that request and returns a status error that carries the
  code of the handler's error: the error leaves \<open>Process\<close>, and no response of status 503
  is made. In both cases the metrics stay as they were.
\<close>

theorem Process_handler_error:
  assumes "ctx_Err it = None" and "Recv it = Inr req"
    and "fallible_handler hs req = Some h"
    and "h (reqCtx st) req = (c, resp, Some e)"
  shows "(status_Code e = ResourceExhausted \<and> Send it = None \<longrightarrow>
            Process_loop hs st (it # its) =
              Process_loop hs
                \<lparr>reqCtx = c,
                 sends = sends st @
                   [Some (ProcessingResponse_ImmediateResponse StatusCode_TooManyRequests)],
                 tel = log_Errorf ''failed to process request: %v'' (tel st)\<rparr> its)
       \<and> (status_Code e \<noteq> ResourceExhausted \<longrightarrow>
            Process_loop hs st (it # its) =
              (Returned (status_Error (status_Code e)
                           (''failed to handle request: '' @ Error_string e)),
               \<lparr>reqCtx = c, sends = sends st,
                tel = log_Errorf ''failed to process request: %v'' (tel st)\<rparr>))"
proof -
  have d: "dispatch hs (time_Now it) req (reqCtx st) (tel st) = Some (c, resp, Some e, tel st)"
    using assms(3,4) by (rule dispatch_error)
  show ?thesis
    using assms(1,2) d by (cases st) (simp add: Process_turn_def Let_def do_Send_ok)
qed

text \<open>
  The scheduler finds no backend for the request body: \<open>Process\<close> returns an error of code
  \<open>Internal\<close>, and the one response sent is the one for the request headers.
\<close>

theorem Process_handler_error_counterexample:
  "fst (Process sample_handlers no_telemetry
          [arrives 100 req_headers, arrives 200 (req_body ''none'')]) =
     Returned (Some (StatusError Internal
       ''failed to handle request: rpc error: code = Internal desc = failed to find target pod''))
   \<and> sends (snd (Process sample_handlers no_telemetry
          [arrives 100 req_headers, arrives 200 (req_body ''none'')])) =
     [Some (ProcessingResponse_RequestHeaders continue_response)]"
  by (simp add: sample_defs)

text \<open>
  A request body that is shed, then the end of the stream; a request body that cannot be
  parsed.
\<close>

theorem Process_handler_error_witness:
  "Process_loop sample_handlers start [arrives 200 (req_body ''shed''), recv_fails io_EOF] =
     (Returned None,
      \<lparr>reqCtx = RequestContext_zero\<lparr>Model := ''m'', ResolvedTargetModel := ''t''\<rparr>,
       sends = [Some (ProcessingResponse_ImmediateResponse 429)],
       tel = \<lparr>metrics = [], klog = [Errorf ''failed to process request: %v'']\<rparr>\<rparr>)
   \<and> Process_loop sample_handlers start [arrives 200 (req_body []), recv_fails io_EOF] =
     (Returned (Some (StatusError Unknown
        ''failed to handle request: error unmarshaling request body'')),
      \<lparr>reqCtx = RequestContext_zero, sends = [],
       tel = \<lparr>metrics = [], klog = [Errorf ''failed to process request: %v'']\<rparr>\<rparr>)"
proof -
  have shed: "sample_HandleRequestBody (reqCtx start) (req_body ''shed'') =
      (RequestContext_zero\<lparr>Model := ''m'', ResolvedTargetModel := ''t''\<rparr>, None,
       Some (StatusError ResourceExhausted ''failed to apply filter''))"
    by (simp add: sample_HandleRequestBody_def req_body_def start_def)
  have bad: "sample_HandleRequestBody (reqCtx start) (req_body []) =
      (RequestContext_zero, None, Some (PlainError ''error unmarshaling request body''))"
    by (simp add: sample_HandleRequestBody_def req_body_def start_def)
  have h: "fallible_handler sample_handlers (req_body b) = Some sample_HandleRequestBody" for b
    by (simp add: req_body_def sample_handlers_def)
  have eof: "Process_turn sample_handlers (recv_fails io_EOF) s = (Some None, s)" for s
    by (simp add: Process_turn_def recv_fails_def)
  show ?thesis
    using Process_handler_error [OF arrives_sel(1) arrives_sel(2) h shed, of 200 "[recv_fails io_EOF]"]
          Process_handler_error [OF arrives_sel(1) arrives_sel(2) h bad, of 200 "[recv_fails io_EOF]"]
    by (simp add: arrives_sel eof status_Error_def log_Errorf_def StatusCode_TooManyRequests_def
        start_def no_telemetry_def)
qed

subsection \<open>Accounting of the request\<close>

text \<open>
  C2, as the code has it. The request counter is incremented and the request size is
  observed in the turn that handles the request body without error, labelled by the model
  and the resolved target model of the request context as the handler left it; nothing is
  recorded when the handler returns an error. A turn that handles a response body adds
  nothing to either collector, so both are recorded whether or not the response ever
  completes.
\<close>

theorem Process_request_accounting:
  assumes "Process_loop hs st pre = (Running, st1)" and "ctx_Err it = None"
  shows "(Recv it = Inr (ProcessingRequest_RequestBody v) \<and>
          HandleRequestBody hs (reqCtx st1) (ProcessingRequest_RequestBody v) = (c, resp, None) \<longrightarrow>
            metrics (tel (snd (Process_loop hs st (pre @ [it])))) =
              metrics (tel st1) @
                [Inc requestCounter [Model c, ResolvedTargetModel c],
                 Observe requestSizes [Model c, ResolvedTargetModel c] (float64 (RequestSize c))])
       \<and> (Recv it = Inr (ProcessingRequest_RequestBody v) \<and>
          HandleRequestBody hs (reqCtx st1) (ProcessingRequest_RequestBody v) = (c, resp, Some e) \<longrightarrow>
            metrics (tel (snd (Process_loop hs st (pre @ [it])))) = metrics (tel st1))
       \<and> (Recv it = Inr (ProcessingRequest_ResponseBody w) \<longrightarrow>
            events_of [requestCounter, requestSizes]
              (metrics (tel (snd (Process_loop hs st (pre @ [it]))))) =
            events_of [requestCounter, requestSizes] (metrics (tel st1)))"
proof (intro conjI impI)
  assume a: "Recv it = Inr (ProcessingRequest_RequestBody v) \<and>
          HandleRequestBody hs (reqCtx st1) (ProcessingRequest_RequestBody v) = (c, resp, None)"
  then have r: "Recv it = Inr (ProcessingRequest_RequestBody v)" by simp
  from a have d: "dispatch hs (time_Now it) (ProcessingRequest_RequestBody v) (reqCtx st1) (tel st1) =
     Some (c, resp, None,
       (tel st1)\<lparr>metrics := metrics (tel st1) @
           [Inc requestCounter [Model c, ResolvedTargetModel c],
            Observe requestSizes [Model c, ResolvedTargetModel c] (float64 (RequestSize c))]\<rparr>)"
    by (intro dispatch_RequestBody_ok) simp
  show "metrics (tel (snd (Process_loop hs st (pre @ [it])))) =
              metrics (tel st1) @
                [Inc requestCounter [Model c, ResolvedTargetModel c],
                 Observe requestSizes [Model c, ResolvedTargetModel c] (float64 (RequestSize c))]"
    by (simp add: Process_loop_snoc [OF assms(1)] Process_turn_dispatched(2) [OF assms(2) r d])
next
  assume a: "Recv it = Inr (ProcessingRequest_RequestBody v) \<and>
          HandleRequestBody hs (reqCtx st1) (ProcessingRequest_RequestBody v) = (c, resp, Some e)"
  then have r: "Recv it = Inr (ProcessingRequest_RequestBody v)" by simp
  from a have d: "dispatch hs (time_Now it) (ProcessingRequest_RequestBody v) (reqCtx st1) (tel st1) =
     Some (c, resp, Some e, tel st1)"
    by simp
  show "metrics (tel (snd (Process_loop hs st (pre @ [it])))) = metrics (tel st1)"
    by (simp add: Process_loop_snoc [OF assms(1)] Process_turn_dispatched(2) [OF assms(2) r d])
next
  assume r: "Recv it = Inr (ProcessingRequest_ResponseBody w)"
  obtain c1 resp1 err t where
    d: "dispatch hs (time_Now it) (ProcessingRequest_ResponseBody w) (reqCtx st1) (tel st1) =
          Some (c1, resp1, err, t)"
    using dispatch_ResponseBody_Some by blast
  show "events_of [requestCounter, requestSizes]
              (metrics (tel (snd (Process_loop hs st (pre @ [it]))))) =
            events_of [requestCounter, requestSizes] (metrics (tel st1))"
    by (simp add: Process_loop_snoc [OF assms(1)] Process_turn_dispatched(2) [OF assms(2) r d]
        dispatch_ResponseBody_request_events [OF d])
qed

text \<open>
  The request headers and the request body have arrived and no response has: \<open>Process\<close>
  waits in \<open>Recv\<close>, the response is not complete, and the counter and the request size are
  already recorded.
\<close>

theorem Process_request_accounting_counterexample:
  "fst (Process sample_handlers no_telemetry
          [arrives 100 req_headers, arrives 200 (req_body ''abc'')]) = Running
   \<and> \<not> ResponseComplete (reqCtx (snd (Process sample_handlers no_telemetry
          [arrives 100 req_headers, arrives 200 (req_body ''abc'')])))
   \<and> metrics (tel (snd (Process sample_handlers no_telemetry
          [arrives 100 req_headers, arrives 200 (req_body ''abc'')]))) =
       [Inc requestCounter [''m'', ''t''], Observe requestSizes [''m'', ''t''] 3]"
  by (simp add: sample_defs)

text \<open>
  After the request headers: a request body that is routed, and one that is shed. After
  the response headers: the response body that ends the stream.
\<close>

theorem Process_request_accounting_witness:
  "metrics (tel (snd (Process_loop sample_handlers start
      (header_turns @ [arrives 200 (req_body ''abc'')])))) =
     [Inc requestCounter [''m'', ''t''], Observe requestSizes [''m'', ''t''] 3]
   \<and> metrics (tel (snd (Process_loop sample_handlers start
      (header_turns @ [arrives 200 (req_body ''shed'')])))) = []
   \<and> events_of [requestCounter, requestSizes]
       (metrics (tel (snd (Process_loop sample_handlers start
          (request_turns @ [arrives 400 (resp_body ''wxyz'' True)]))))) =
     [Inc requestCounter [''m'', ''t''], Observe requestSizes [''m'', ''t''] 3]"
proof -
  have ok: "HandleRequestBody sample_handlers (reqCtx awaiting_body)
      (ProcessingRequest_RequestBody \<lparr>Body = ''abc'', EndOfStream = True\<rparr>) =
      (RequestContext_zero\<lparr>RequestReceivedTimestamp := 100, Model := ''m'',
         ResolvedTargetModel := ''t'', RequestSize := 3\<rparr>,
       Some (ProcessingResponse_RequestBody
                     \<lparr>SetHeaders = [(''target-pod'', ''10.0.0.1:8000'')],
                      BodyMutation = Some ''abc''\<rparr>), None)"
    by (simp add: sample_handlers_def sample_HandleRequestBody_def awaiting_body_def)
  have shed: "HandleRequestBody sample_handlers (reqCtx awaiting_body)
      (ProcessingRequest_RequestBody \<lparr>Body = ''shed'', EndOfStream = True\<rparr>) =
      (RequestContext_zero\<lparr>RequestReceivedTimestamp := 100, Model := ''m'',
         ResolvedTargetModel := ''t''\<rparr>, None,
       Some (StatusError ResourceExhausted ''failed to apply filter''))"
    by (simp add: sample_handlers_def sample_HandleRequestBody_def awaiting_body_def)
  have m: "metrics (tel awaiting_body) = []"
    by (simp add: awaiting_body_def no_telemetry_def)
  have 1: "metrics (tel (snd (Process_loop sample_handlers start
      (header_turns @ [arrives 200 (req_body ''abc'')])))) =
     [Inc requestCounter [''m'', ''t''], Observe requestSizes [''m'', ''t''] 3]"
    using Process_request_accounting [OF header_turns_run arrives_sel(1) [of 200 "req_body ''abc''"],
            where v = "\<lparr>Body = ''abc'', EndOfStream = True\<rparr>"
              and c = "RequestContext_zero\<lparr>RequestReceivedTimestamp := 100, Model := ''m'',
                         ResolvedTargetModel := ''t'', RequestSize := 3\<rparr>"
              and resp = "Some (ProcessingResponse_RequestBody
                     \<lparr>SetHeaders = [(''target-pod'', ''10.0.0.1:8000'')],
                      BodyMutation = Some ''abc''\<rparr>)"]
    by (simp add: arrives_sel req_body_def ok m float64_def)
  have 2: "metrics (tel (snd (Process_loop sample_handlers start
      (header_turns @ [arrives 200 (req_body ''shed'')])))) = []"
    using Process_request_accounting [OF header_turns_run arrives_sel(1) [of 200 "req_body ''shed''"],
            where v = "\<lparr>Body = ''shed'', EndOfStream = True\<rparr>"
              and c = "RequestContext_zero\<lparr>RequestReceivedTimestamp := 100, Model := ''m'',
                         ResolvedTargetModel := ''t''\<rparr>"
              and resp = None
              and e = "StatusError ResourceExhausted ''failed to apply filter''"]
    by (simp add: arrives_sel req_body_def shed m)
  have 3: "events_of [requestCounter, requestSizes]
       (metrics (tel (snd (Process_loop sample_handlers start
          (request_turns @ [arrives 400 (resp_body ''wxyz'' True)]))))) =
     [Inc requestCounter [''m'', ''t''], Observe requestSizes [''m'', ''t''] 3]"
    using Process_request_accounting [OF request_turns_run
            arrives_sel(1) [of 400 "resp_body ''wxyz'' True"],
            where w = "\<lparr>Body = ''wxyz'', EndOfStream = True\<rparr>"]
    by (simp add: arrives_sel resp_body_def awaiting_response_def events_of_def)
  from 1 2 3 show ?thesis by blast
qed

subsection \<open>Accounting of the response\<close>

text \<open>
  C3, as the code has it. When a response body has been handled without error and the
  request context says the response is complete, \<open>Process\<close> sets the completion timestamp
  to the reading of the clock and records, labelled by the model and the resolved target
  model of the request context: one latency observation if that reading is strictly after
  the received timestamp and none otherwise, then one response size, one input token count
  and one output token count.
\<close>

theorem Process_response_complete:
  assumes "Process_loop hs st pre = (Running, st1)"
    and "ctx_Err it = None"
    and "Recv it = Inr (ProcessingRequest_ResponseBody v)"
    and "HandleResponseBody hs (reqCtx st1) (ProcessingRequest_ResponseBody v) = (c, resp, None)"
    and "ResponseComplete c"
  shows "reqCtx (snd (Process_loop hs st (pre @ [it]))) =
           c\<lparr>ResponseCompleteTimestamp := time_Now it\<rparr>
       \<and> metrics (tel (snd (Process_loop hs st (pre @ [it])))) =
           metrics (tel st1) @
           (if RequestReceivedTimestamp c < time_Now it
            then [Observe requestLatencies [Model c, ResolvedTargetModel c]
                    (Seconds (Sub (time_Now it) (RequestReceivedTimestamp c)))]
            else []) @
           [Observe responseSizes [Model c, ResolvedTargetModel c] (float64 (ResponseSize c)),
            Observe inputTokens [Model c, ResolvedTargetModel c]
              (float64 (PromptTokens (Usage (Response c)))),
            Observe outputTokens [Model c, ResolvedTargetModel c]
              (float64 (CompletionTokens (Usage (Response c))))]"
proof -
  from dispatch_ResponseBody_complete [OF assms(4,5), of "time_Now it" "tel st1"]
  obtain t1 where
    d: "dispatch hs (time_Now it) (ProcessingRequest_ResponseBody v) (reqCtx st1) (tel st1) =
          Some (c\<lparr>ResponseCompleteTimestamp := time_Now it\<rparr>, resp, None, t1)"
    and m: "metrics t1 = metrics (tel st1) @
           (if RequestReceivedTimestamp c < time_Now it
            then [Observe requestLatencies [Model c, ResolvedTargetModel c]
                    (Seconds (Sub (time_Now it) (RequestReceivedTimestamp c)))]
            else []) @
           [Observe responseSizes [Model c, ResolvedTargetModel c] (float64 (ResponseSize c)),
            Observe inputTokens [Model c, ResolvedTargetModel c]
              (float64 (PromptTokens (Usage (Response c)))),
            Observe outputTokens [Model c, ResolvedTargetModel c]
              (float64 (CompletionTokens (Usage (Response c))))]"
    by blast
  show ?thesis
    by (simp only: Process_loop_snoc [OF assms(1)] Process_turn_dispatched [OF assms(2,3) d] m)
qed

text \<open>
  A whole request during which the clock reads the same: the response completes and no
  latency is observed.
\<close>

theorem Process_response_complete_counterexample:
  "ResponseComplete (reqCtx (snd (Process sample_handlers no_telemetry
      [arrives 100 req_headers, arrives 100 (req_body ''abc''),
       arrives 100 resp_headers, arrives 100 (resp_body ''wxyz'' True)])))
   \<and> metrics (tel (snd (Process sample_handlers no_telemetry
      [arrives 100 req_headers, arrives 100 (req_body ''abc''),
       arrives 100 resp_headers, arrives 100 (resp_body ''wxyz'' True)]))) =
     [Inc requestCounter [''m'', ''t''], Observe requestSizes [''m'', ''t''] 3,
      Observe responseSizes [''m'', ''t''] 4,
      Observe inputTokens [''m'', ''t''] 0, Observe outputTokens [''m'', ''t''] 0]"
  by (simp add: sample_defs)

text \<open>The response body ends the stream 300 nanoseconds after the request headers.\<close>

theorem Process_response_complete_witness:
  "ResponseCompleteTimestamp (reqCtx (snd (Process_loop sample_handlers start
      (request_turns @ [arrives 400 (resp_body ''wxyz'' True)])))) = 400
   \<and> metrics (tel (snd (Process_loop sample_handlers start
      (request_turns @ [arrives 400 (resp_body ''wxyz'' True)])))) =
     [Inc requestCounter [''m'', ''t''], Observe requestSizes [''m'', ''t''] 3,
      Observe requestLatencies [''m'', ''t''] (3 / 10000000),
      Observe responseSizes [''m'', ''t''] 4,
      Observe inputTokens [''m'', ''t''] 0, Observe outputTokens [''m'', ''t''] 0]"
  using Process_response_complete [OF request_turns_run arrives_sel(1),
      of 400 "resp_body ''wxyz'' True" "\<lparr>Body = ''wxyz'', EndOfStream = True\<rparr>",
      OF _ sample_complete]
  by (simp add: arrives_sel resp_body_def awaiting_response_def RequestContext_zero_def
      Sub_def Seconds_def float64_def maxDuration_def minDuration_def)

text \<open>
  C4, as the code has it. When the response completes and the usage in the request context
  is at its zero value, as it is when the response carried no usage, \<open>Process\<close> still
  records one input token observation and one output token observation, both of value 0.
\<close>

theorem Process_response_without_usage:
  assumes "Process_loop hs st pre = (Running, st1)"
    and "ctx_Err it = None"
    and "Recv it = Inr (ProcessingRequest_ResponseBody v)"
    and "HandleResponseBody hs (reqCtx st1) (ProcessingRequest_ResponseBody v) = (c, resp, None)"
    and "ResponseComplete c"
    and "Usage (Response c) = \<lparr>PromptTokens = 0, CompletionTokens = 0\<rparr>"
  shows "events_of [inputTokens, outputTokens]
           (metrics (tel (snd (Process_loop hs st (pre @ [it]))))) =
         events_of [inputTokens, outputTokens] (metrics (tel st1)) @
           [Observe inputTokens [Model c, ResolvedTargetModel c] 0,
            Observe outputTokens [Model c, ResolvedTargetModel c] 0]"
proof -
  from dispatch_ResponseBody_complete [OF assms(4,5), of "time_Now it" "tel st1"]
  obtain t1 where
    d: "dispatch hs (time_Now it) (ProcessingRequest_ResponseBody v) (reqCtx st1) (tel st1) =
          Some (c\<lparr>ResponseCompleteTimestamp := time_Now it\<rparr>, resp, None, t1)"
    and m: "events_of [inputTokens, outputTokens] (metrics t1) =
            events_of [inputTokens, outputTokens] (metrics (tel st1)) @
           [Observe inputTokens [Model c, ResolvedTargetModel c] 0,
            Observe outputTokens [Model c, ResolvedTargetModel c] 0]"
    by (auto simp: events_of_def assms(6) float64_def)
  show ?thesis
    by (simp only: Process_loop_snoc [OF assms(1)] Process_turn_dispatched [OF assms(2,3) d] m)
qed

text \<open>
  A whole request whose response carries no usage: the usage in the request context is at
  its zero value, and both token collectors have an observation.
\<close>

theorem Process_response_without_usage_counterexample:
  "Usage (Response (reqCtx (snd (Process sample_handlers no_telemetry
      [arrives 100 req_headers, arrives 200 (req_body ''abc''),
       arrives 300 resp_headers, arrives 400 (resp_body ''wxyz'' True)])))) =
     \<lparr>PromptTokens = 0, CompletionTokens = 0\<rparr>
   \<and> events_of [inputTokens, outputTokens]
       (metrics (tel (snd (Process sample_handlers no_telemetry
         [arrives 100 req_headers, arrives 200 (req_body ''abc''),
          arrives 300 resp_headers, arrives 400 (resp_body ''wxyz'' True)])))) =
     [Observe inputTokens [''m'', ''t''] 0, Observe outputTokens [''m'', ''t''] 0]"
  by (simp add: sample_defs)

text \<open>The same response body, after the turns of the request.\<close>

theorem Process_response_without_usage_witness:
  "events_of [inputTokens, outputTokens]
     (metrics (tel (snd (Process_loop sample_handlers start
        (request_turns @ [arrives 400 (resp_body ''wxyz'' True)]))))) =
   [Observe inputTokens [''m'', ''t''] 0, Observe outputTokens [''m'', ''t''] 0]"
  using Process_response_without_usage [OF request_turns_run arrives_sel(1),
      of 400 "resp_body ''wxyz'' True" "\<lparr>Body = ''wxyz'', EndOfStream = True\<rparr>",
      OF _ sample_complete]
  by (simp add: arrives_sel resp_body_def awaiting_response_def RequestContext_zero_def
      events_of_def)

lemma HandleResponseBody_spec_partial:
  "\<not> EndOfStream b \<Longrightarrow>
   HandleResponseBody_spec p c (ProcessingRequest_ResponseBody b) =
     (c\<lparr>ResponseSize := ResponseSize c + int (length (Body b)),
        Response := (case p (Body b) of Some u \<Rightarrow> \<lparr>Usage = u\<rparr> | None \<Rightarrow> Response c)\<rparr>,
      Some (ProcessingResponse_ResponseBody continue_response), None)"
  by (cases c) (simp add: HandleResponseBody_spec_def Let_def split: option.splits)

lemma spec_request_turns_run:
  "Process_loop (spec_handlers p) start request_turns = (Running, awaiting_response)"
  by (simp add: sample_defs spec_handlers_def request_turns_def awaiting_response_def)

text \<open>
  C7. With the response body handler of the specification, a turn that handles a response
  body which does not end the stream, in a request context whose response is not complete,
  records no metric and leaves the completion timestamp as it was; the response stays
  incomplete, and of the request context only the response size, grown by the length of the
  chunk, and the response with its usage, where the chunk carries one, change.
\<close>

theorem Process_response_partial:
  assumes "Process_loop hs st pre = (Running, st1)"
    and "ctx_Err it = None"
    and "Recv it = Inr (ProcessingRequest_ResponseBody b)"
    and "HandleResponseBody hs = HandleResponseBody_spec parse_usage"
    and "\<not> EndOfStream b"
    and "\<not> ResponseComplete (reqCtx st1)"
  shows "metrics (tel (snd (Process_loop hs st (pre @ [it])))) = metrics (tel st1)
       \<and> ResponseCompleteTimestamp (reqCtx (snd (Process_loop hs st (pre @ [it])))) =
           ResponseCompleteTimestamp (reqCtx st1)
       \<and> \<not> ResponseComplete (reqCtx (snd (Process_loop hs st (pre @ [it]))))
       \<and> reqCtx (snd (Process_loop hs st (pre @ [it]))) =
           (reqCtx st1)
             \<lparr>ResponseSize := ResponseSize (reqCtx st1) + int (length (Body b)),
              Response := (case parse_usage (Body b) of
                             Some u \<Rightarrow> \<lparr>Usage = u\<rparr>
                           | None \<Rightarrow> Response (reqCtx st1))\<rparr>"
proof -
  let ?c = "(reqCtx st1)
             \<lparr>ResponseSize := ResponseSize (reqCtx st1) + int (length (Body b)),
              Response := (case parse_usage (Body b) of
                             Some u \<Rightarrow> \<lparr>Usage = u\<rparr>
                           | None \<Rightarrow> Response (reqCtx st1))\<rparr>"
  have h: "HandleResponseBody hs (reqCtx st1) (ProcessingRequest_ResponseBody b) =
      (?c, Some (ProcessingResponse_ResponseBody continue_response), None)"
    unfolding assms(4) using assms(5) by (rule HandleResponseBody_spec_partial)
  have nc: "\<not> ResponseComplete ?c"
    using assms(6) by simp
  note d = dispatch_ResponseBody_partial [OF h nc, of "time_Now it" "tel st1"]
  have r: "reqCtx (snd (Process_loop hs st (pre @ [it]))) = ?c"
    and m: "metrics (tel (snd (Process_loop hs st (pre @ [it])))) = metrics (tel st1)"
    by (simp_all only: Process_loop_snoc [OF assms(1)] Process_turn_dispatched [OF assms(2,3) d])
  show ?thesis
    unfolding r m using assms(6) by simp
qed

text \<open>
  A chunk of the response body that does not end the stream and carries no usage: the
  metrics are those of the request, the completion timestamp is still zero, and the
  request context differs from the one before in the response size alone.
\<close>

theorem Process_response_partial_witness:
  "metrics (tel (snd (Process_loop (spec_handlers no_usage) start
      (request_turns @ [arrives 400 (resp_body ''wx'' False)])))) =
     [Inc requestCounter [''m'', ''t''], Observe requestSizes [''m'', ''t''] 3]
   \<and> ResponseCompleteTimestamp (reqCtx (snd (Process_loop (spec_handlers no_usage) start
      (request_turns @ [arrives 400 (resp_body ''wx'' False)])))) = 0
   \<and> reqCtx (snd (Process_loop (spec_handlers no_usage) start
      (request_turns @ [arrives 400 (resp_body ''wx'' False)]))) =
     (reqCtx awaiting_response)\<lparr>ResponseSize := 2\<rparr>"
proof -
  have h: "HandleResponseBody (spec_handlers no_usage) = HandleResponseBody_spec no_usage"
    by (simp add: spec_handlers_def)
  have e: "\<not> EndOfStream \<lparr>Body = ''wx'', EndOfStream = False\<rparr>"
    by simp
  have c: "\<not> ResponseComplete (reqCtx awaiting_response)"
    by (simp add: awaiting_response_def RequestContext_zero_def)
  have a: "Recv (arrives 400 (resp_body ''wx'' False)) =
      Inr (ProcessingRequest_ResponseBody \<lparr>Body = ''wx'', EndOfStream = False\<rparr>)"
    by (simp add: arrives_def resp_body_def)
  from Process_response_partial [OF spec_request_turns_run arrives_sel(1) a h e c]
  show ?thesis
    by (simp add: no_usage_def awaiting_response_def RequestContext_zero_def)
qed

end
